theory Spec2Isabelle
  imports Complex_Main
begin

section \<open>Data model of coordinateUtils\<close>

text \<open>
  The coordinate utilities are pure functions over JavaScript numbers and strings.
  A JavaScript number is modelled by a real: every finite double is a real, and
  \<^verbatim>\<open>Math.sin\<close>, \<^verbatim>\<open>Math.cos\<close>, \<^verbatim>\<open>Math.tan\<close>, \<^verbatim>\<open>Math.sqrt\<close>, \<^verbatim>\<open>Math.pow\<close> and
  \<^verbatim>\<open>Math.PI\<close> are the exact functions and the exact constant. Rounding of doubles
  and overflow are not represented. A string is a list of characters.

  The interface \<^verbatim>\<open>UTMCoordinates { x, y, zone }\<close>: the fields \<^verbatim>\<open>x\<close> and \<^verbatim>\<open>y\<close> are
  called \<open>utm_x\<close> and \<open>utm_y\<close> here, so that \<open>x\<close> and \<open>y\<close> stay variables.
  The interfaces \<^verbatim>\<open>GeographicCoordinates\<close> and \<^verbatim>\<open>PolygonPoint\<close> have the same
  two fields. Both records are polymorphic in the type of their numbers: the
  conversions and the distance compute on real numbers; the centroid can return
  values that are not real numbers; and the two validators, which only compare
  their numbers, are given every value of the type \<^verbatim>\<open>number\<close>, \<^verbatim>\<open>NaN\<close> and the
  infinities included, because a comparison with \<^verbatim>\<open>NaN\<close> is false whichever way
  it is written.
\<close>

record 'n UTMCoordinates =
  utm_x :: 'n
  utm_y :: 'n
  zone :: string

record 'n GeographicCoordinates =
  lat :: 'n
  lng :: 'n

type_synonym PolygonPoint = "real GeographicCoordinates"

text \<open>
  The value of a division whose divisor may be exactly zero. JavaScript does not
  throw there: \<^verbatim>\<open>0 / 0\<close> is \<^verbatim>\<open>NaN\<close> and any other number over zero is
  \<^verbatim>\<open>Infinity\<close> or \<^verbatim>\<open>-Infinity\<close> (the sign depends on the sign of the zero, which a
  real does not have, so both are \<open>Infinity\<close> here).
\<close>

datatype number = Num real | Infinity | NaN

definition js_div :: "real \<Rightarrow> real \<Rightarrow> number" where
  "js_div a b = (if b \<noteq> 0 then Num (a / b) else if a = 0 then NaN else Infinity)"

fun is_finite :: "number \<Rightarrow> bool" where
  "is_finite (Num r) = True"
| "is_finite Infinity = False"
| "is_finite NaN = False"

text \<open>
  A value of the type \<^verbatim>\<open>number\<close> as the validators receive it, and the operators
  \<^verbatim>\<open><\<close>, \<^verbatim>\<open>>\<close>, \<^verbatim>\<open><=\<close> and \<^verbatim>\<open>>=\<close> on it: every comparison with \<^verbatim>\<open>NaN\<close> is
  false.
\<close>

datatype double = Finite real | PosInfinity | NegInfinity | NotANumber

fun js_less :: "double \<Rightarrow> double \<Rightarrow> bool" where
  "js_less NotANumber _ = False"
| "js_less _ NotANumber = False"
| "js_less (Finite a) (Finite b) = (a < b)"
| "js_less (Finite a) PosInfinity = True"
| "js_less (Finite a) NegInfinity = False"
| "js_less PosInfinity _ = False"
| "js_less NegInfinity NegInfinity = False"
| "js_less NegInfinity _ = True"

definition js_greater :: "double \<Rightarrow> double \<Rightarrow> bool" where
  "js_greater a b = js_less b a"

definition js_less_eq :: "double \<Rightarrow> double \<Rightarrow> bool" where
  "js_less_eq a b = (a \<noteq> NotANumber \<and> b \<noteq> NotANumber \<and> \<not> js_less b a)"

definition js_greater_eq :: "double \<Rightarrow> double \<Rightarrow> bool" where
  "js_greater_eq a b = js_less_eq b a"

text \<open>What \<^verbatim>\<open>throw new Error(msg)\<close> raises.\<close>

datatype error = Error string

section \<open>Zone strings\<close>

text \<open>The character classes of the two regular expressions: \<^verbatim>\<open>\d\<close>, and \<^verbatim>\<open>[NS]\<close>
  under the flag \<^verbatim>\<open>i\<close>.\<close>

definition is_digit :: "char \<Rightarrow> bool" where
  "is_digit c = (c \<in> set ''0123456789'')"

definition is_NS :: "char \<Rightarrow> bool" where
  "is_NS c = (c \<in> set ''NSns'')"

text \<open>\<^verbatim>\<open>String.prototype.toUpperCase\<close> on one ASCII character.\<close>

definition toUpperCase :: "char \<Rightarrow> char" where
  "toUpperCase c =
     (let n = (of_char c :: nat) in if 97 \<le> n \<and> n \<le> 122 then char_of (n - 32) else c)"

text \<open>\<^verbatim>\<open>parseInt\<close> on a string of decimal digits (the only strings it is applied to are
  the captures of \<^verbatim>\<open>\d+\<close> and \<^verbatim>\<open>\d{1,2}\<close>): its decimal value. A double holds it
  exactly up to sixteen digits or so; the model keeps it exact for every length.\<close>

definition digit_value :: "char \<Rightarrow> nat" where
  "digit_value c = of_char c - 48"

definition parseInt :: "string \<Rightarrow> nat" where
  "parseInt ds = foldl (\<lambda>n c. 10 * n + digit_value c) 0 ds"

text \<open>
  \<^verbatim>\<open>utm.zone.match(/(\d+)([NS])/i)\<close>: the leftmost match of one or more digits
  followed by one of N, S, n, s, anywhere in the string. At a start position the
  greedy \<^verbatim>\<open>\d+\<close> takes the whole run of digits; giving digits back leaves a digit as
  the next character, which \<^verbatim>\<open>[NS]\<close> rejects, so only the whole run can match there.
  The result is the pair of captures, or \<open>None\<close> for \<^verbatim>\<open>null\<close>.
\<close>

definition match_here :: "string \<Rightarrow> (string \<times> char) option" where
  "match_here s =
     (let ds = takeWhile is_digit s; rest = dropWhile is_digit s
      in case rest of
           [] \<Rightarrow> None
         | c # _ \<Rightarrow> if ds \<noteq> [] \<and> is_NS c then Some (ds, c) else None)"

fun zone_match :: "string \<Rightarrow> (string \<times> char) option" where
  "zone_match [] = None"
| "zone_match (c # cs) =
     (case match_here (c # cs) of
        Some m \<Rightarrow> Some m
      | None \<Rightarrow> zone_match cs)"

text \<open>
  \<^verbatim>\<open>utm.zone.match(/^(\d{1,2})[NS]$/i)\<close>: the whole string is one or two digits and
  one of N, S, n, s. The result is the capture, or \<open>None\<close> for \<^verbatim>\<open>null\<close>.
\<close>

fun validate_zone_match :: "string \<Rightarrow> string option" where
  "validate_zone_match [d1, c] =
     (if is_digit d1 \<and> is_NS c then Some [d1] else None)"
| "validate_zone_match [d1, d2, c] =
     (if is_digit d1 \<and> is_digit d2 \<and> is_NS c then Some [d1, d2] else None)"
| "validate_zone_match _ = None"

section \<open>validateUtmCoordinates\<close>

definition validateUtmCoordinates :: "double UTMCoordinates \<Rightarrow> bool" where
  "validateUtmCoordinates utm =
     (case validate_zone_match (zone utm) of
        None \<Rightarrow> False
      | Some ds \<Rightarrow>
          (let zoneNumber = parseInt ds in
           if zoneNumber < 1 \<or> zoneNumber > 60 then False
           else if js_less (utm_x utm) (Finite 160000) \<or> js_greater (utm_x utm) (Finite 840000)
             then False
           else if js_less (utm_y utm) (Finite 0) \<or> js_greater (utm_y utm) (Finite 10000000)
             then False
           else True))"

definition validateGeographicCoordinates :: "double GeographicCoordinates \<Rightarrow> bool" where
  "validateGeographicCoordinates coords =
     (js_greater_eq (lat coords) (Finite (- 90)) \<and> js_less_eq (lat coords) (Finite 90) \<and>
      js_greater_eq (lng coords) (Finite (- 180)) \<and> js_less_eq (lng coords) (Finite 180))"

section \<open>utmToGeographic\<close>

text \<open>
  The first part of \<^verbatim>\<open>utmToGeographic\<close>: the zone number and the hemisphere flag
  \<^verbatim>\<open>isNorthern\<close> (initially \<^verbatim>\<open>true\<close>) read from the zone string.
\<close>

definition resolve_zone :: "string \<Rightarrow> nat \<times> bool" where
  "resolve_zone z =
     (if z = ''19Q'' \<or> z = ''19N'' then (19, True)
      else if z = ''20N'' then (20, True)
      else (case zone_match z of
              None \<Rightarrow> (19, True)
            | Some (ds, c) \<Rightarrow> (parseInt ds, toUpperCase c = CHR ''N'')))"

text \<open>
  The rest of \<^verbatim>\<open>utmToGeographic\<close>: the inverse Transverse Mercator series, from the
  zone number, the hemisphere flag, \<^verbatim>\<open>utm.x\<close> and \<^verbatim>\<open>utm.y\<close>. The locals \<^verbatim>\<open>lat\<close> and
  \<^verbatim>\<open>lng\<close> (radians) are \<open>lat_r\<close> and \<open>lng_r\<close>. No double is an odd multiple of
  \<open>pi / 2\<close>, so in the program \<^verbatim>\<open>Math.cos(phi1)\<close> is not zero; at the reals where it
  is, the value of this function means nothing.
\<close>

definition utm_inverse :: "nat \<Rightarrow> bool \<Rightarrow> real \<Rightarrow> real \<Rightarrow> real GeographicCoordinates" where
  "utm_inverse zoneNumber isNorthern ux uy =
     (let k0 = 0.9996;
          e = 0.00669438;
          e1sq = 0.00673949674228;
          n = (1 - sqrt (1 - e)) / (1 + sqrt (1 - e));
          a = 6378137;
          x = ux - 500000.0;
          y = (if \<not> isNorthern then uy - 10000000.0 else uy);
          lonOrigin = (real zoneNumber - 1) * 6 - 180 + 3;
          M = y / k0;
          mu = M / (a * (1 - e / 4 - 3 * e * e / 64 - 5 * e ^ 3 / 256));
          phi1Rad = mu +
            (3 * n / 2 - 27 * n ^ 3 / 32) * sin (2 * mu) +
            (21 * n * n / 16 - 55 * n ^ 4 / 32) * sin (4 * mu) +
            (151 * n ^ 3 / 96) * sin (6 * mu);
          phi1 = phi1Rad;
          rho1Calc = a * (1 - e) / (1 - e * sin phi1 * sin phi1) powr 1.5;
          nu1Calc = a / sqrt (1 - e * sin phi1 * sin phi1);
          T1 = tan phi1 * tan phi1;
          C1 = e1sq * cos phi1 * cos phi1;
          D = x / (nu1Calc * k0);
          lat_r = phi1Rad - (nu1Calc * tan phi1 / rho1Calc) *
            (D * D / 2 - (5 + 3 * T1 + 10 * C1 - 4 * C1 * C1 - 9 * e1sq) * D ^ 4 / 24 +
             (61 + 90 * T1 + 298 * C1 + 45 * T1 * T1 - 252 * e1sq - 3 * C1 * C1) * D ^ 6 / 720);
          lng_r = (lonOrigin * pi / 180) +
            (D - (1 + 2 * T1 + C1) * D ^ 3 / 6 +
             (5 - 2 * C1 + 28 * T1 - 3 * C1 * C1 + 8 * e1sq + 24 * T1 * T1) * D ^ 5 / 120) / cos phi1
      in \<lparr> lat = lat_r * 180 / pi, lng = lng_r * 180 / pi \<rparr>)"

definition utmToGeographic :: "real UTMCoordinates \<Rightarrow> real GeographicCoordinates" where
  "utmToGeographic utm =
     (case resolve_zone (zone utm) of
        (zoneNumber, isNorthern) \<Rightarrow> utm_inverse zoneNumber isNorthern (utm_x utm) (utm_y utm))"

section \<open>geographicToUtm\<close>

text \<open>\<^verbatim>\<open>Math.round\<close>: the nearest integer, a tie going up.\<close>

definition js_round :: "real \<Rightarrow> real" where
  "js_round r = of_int \<lfloor>r + 1 / 2\<rfloor>"

text \<open>How a template literal prints an integer: its decimal digits, after a minus sign
  when it is negative.\<close>

definition digit_char :: "nat \<Rightarrow> char" where
  "digit_char d = char_of (48 + d)"

fun digits_of_nat :: "nat \<Rightarrow> string" where
  "digits_of_nat n =
     (if n < 10 then [digit_char n] else digits_of_nat (n div 10) @ [digit_char (n mod 10)])"

definition string_of_int :: "int \<Rightarrow> string" where
  "string_of_int i =
     (if i < 0 then CHR ''-'' # digits_of_nat (nat (- i)) else digits_of_nat (nat i))"

definition zoneNumber_of :: "real GeographicCoordinates \<Rightarrow> int" where
  "zoneNumber_of coords = \<lfloor>(lng coords + 180) / 6\<rfloor> + 1"

text \<open>
  The forward Transverse Mercator series of \<^verbatim>\<open>geographicToUtm\<close>: the pair of
  \<^verbatim>\<open>utmEasting\<close> and \<^verbatim>\<open>utmNorthing\<close> as they are before the hemisphere is looked at.
  The locals \<^verbatim>\<open>lat\<close> and \<^verbatim>\<open>lon\<close> (radians) are \<open>lat_r\<close> and \<open>lon_r\<close>.
\<close>

definition utm_forward :: "real GeographicCoordinates \<Rightarrow> real \<times> real" where
  "utm_forward coords =
     (let lat_r = lat coords * pi / 180;
          lon_r = lng coords * pi / 180;
          zoneNumber = of_int (zoneNumber_of coords);
          lonOrigin = (zoneNumber - 1) * 6 - 180 + 3;
          lonOriginRad = lonOrigin * pi / 180;
          a = 6378137;
          eccSquared = 0.00669438;
          k0 = 0.9996;
          eccPrimeSquared = eccSquared / (1 - eccSquared);
          N = a / sqrt (1 - eccSquared * sin lat_r * sin lat_r);
          T = tan lat_r * tan lat_r;
          C = eccPrimeSquared * cos lat_r * cos lat_r;
          A = cos lat_r * (lon_r - lonOriginRad);
          M = a * ((1 - eccSquared / 4 - 3 * eccSquared * eccSquared / 64 - 5 * eccSquared ^ 3 / 256) * lat_r -
            (3 * eccSquared / 8 + 3 * eccSquared * eccSquared / 32 + 45 * eccSquared ^ 3 / 1024) * sin (2 * lat_r) +
            (15 * eccSquared * eccSquared / 256 + 45 * eccSquared ^ 3 / 1024) * sin (4 * lat_r) -
            (35 * eccSquared ^ 3 / 3072) * sin (6 * lat_r));
          utmEasting = k0 * N * (A + (1 - T + C) * A ^ 3 / 6 +
            (5 - 18 * T + T * T + 72 * C - 58 * eccPrimeSquared) * A ^ 5 / 120) + 500000.0;
          utmNorthing = k0 * (M + N * tan lat_r * (A * A / 2 + (5 - T + 9 * C + 4 * C * C) * A ^ 4 / 24 +
            (61 - 58 * T + T * T + 600 * C - 330 * eccPrimeSquared) * A ^ 6 / 720))
      in (utmEasting, utmNorthing))"

definition geographicToUtm :: "real GeographicCoordinates \<Rightarrow> real UTMCoordinates" where
  "geographicToUtm coords =
     (case utm_forward coords of
        (utmEasting, utmNorthing0) \<Rightarrow>
          (let hemisphere = (if lat coords \<ge> 0 then CHR ''N'' else CHR ''S'');
               utmNorthing = (if hemisphere = CHR ''S'' then utmNorthing0 + 10000000.0 else utmNorthing0)
           in \<lparr> utm_x = js_round utmEasting,
                utm_y = js_round utmNorthing,
                zone = string_of_int (zoneNumber_of coords) @ [hemisphere] \<rparr>))"

section \<open>calculatePolygonCentroid\<close>

text \<open>
  The loop \<^verbatim>\<open>for (let i = 0; i < polygon.length; i++)\<close>, with its three accumulators
  \<^verbatim>\<open>area\<close>, \<^verbatim>\<open>centroidLat\<close> and \<^verbatim>\<open>centroidLng\<close> as the state.
\<close>

function centroid_loop ::
    "PolygonPoint list \<Rightarrow> nat \<Rightarrow> real \<times> real \<times> real \<Rightarrow> real \<times> real \<times> real" where
  "centroid_loop polygon i (area, centroidLat, centroidLng) =
     (if i < length polygon then
        (let j = (i + 1) mod length polygon;
             xi = lng (polygon ! i);
             yi = lat (polygon ! i);
             xj = lng (polygon ! j);
             yj = lat (polygon ! j);
             a = xi * yj - xj * yi
         in centroid_loop polygon (i + 1)
              (area + a, centroidLat + (yi + yj) * a, centroidLng + (xi + xj) * a))
      else (area, centroidLat, centroidLng))"
  by pat_completeness auto
termination
  by (relation "measure (\<lambda>(polygon, i, s). length polygon - i)") auto

text \<open>A point that is returned as it is: its coordinates are the real numbers they were.\<close>

definition as_result :: "PolygonPoint \<Rightarrow> number GeographicCoordinates" where
  "as_result p = \<lparr> lat = Num (lat p), lng = Num (lng p) \<rparr>"

definition calculatePolygonCentroid ::
    "PolygonPoint list \<Rightarrow> error + number GeographicCoordinates" where
  "calculatePolygonCentroid polygon =
     (if length polygon = 0 then Inl (Error ''Polygon must have at least one point'')
      else if length polygon = 1 then Inr (as_result (polygon ! 0))
      else
        (case centroid_loop polygon 0 (0, 0, 0) of
           (area0, centroidLat, centroidLng) \<Rightarrow>
             (let area = area0 * 0.5
              in Inr \<lparr> lat = js_div centroidLat (6 * area),
                       lng = js_div centroidLng (6 * area) \<rparr>)))"

section \<open>calculateDistance\<close>

text \<open>
  \<^verbatim>\<open>Math.atan2(y, x)\<close> on real numbers: the angle of the point \<open>(x, y)\<close> in
  \<open>(- pi, pi]\<close>, and \<open>0\<close> at the origin.
\<close>

definition js_atan2 :: "real \<Rightarrow> real \<Rightarrow> real" where
  "js_atan2 y x =
     (if x > 0 then arctan (y / x)
      else if x < 0 then (if y \<ge> 0 then arctan (y / x) + pi else arctan (y / x) - pi)
      else if y > 0 then pi / 2
      else if y < 0 then - pi / 2
      else 0)"

text \<open>The local \<^verbatim>\<open>a\<close> of \<^verbatim>\<open>calculateDistance\<close>.\<close>

definition haversine_a :: "real GeographicCoordinates \<Rightarrow> real GeographicCoordinates \<Rightarrow> real" where
  "haversine_a point1 point2 =
     (let lat1Rad = lat point1 * pi / 180;
          lat2Rad = lat point2 * pi / 180;
          deltaLat = (lat point2 - lat point1) * pi / 180;
          deltaLng = (lng point2 - lng point1) * pi / 180
      in sin (deltaLat / 2) * sin (deltaLat / 2) +
         cos lat1Rad * cos lat2Rad * sin (deltaLng / 2) * sin (deltaLng / 2))"

definition calculateDistance :: "real GeographicCoordinates \<Rightarrow> real GeographicCoordinates \<Rightarrow> real" where
  "calculateDistance point1 point2 =
     (let R = 6371000;
          a = haversine_a point1 point2;
          c = 2 * js_atan2 (sqrt a) (sqrt (1 - a))
      in R * c)"

section \<open>The specification's formulas\<close>

text \<open>
  The zone pattern \<^verbatim>\<open><digits><N|S>\<close> as the source's regular expression reads
  it: somewhere in the string stand one or more digits and, right after them, one of
  N, S, n, s (the flag \<^verbatim>\<open>i\<close>).
\<close>

definition contains_zone_pattern :: "string \<Rightarrow> bool" where
  "contains_zone_pattern z =
     (\<exists>pre ds c post. z = pre @ ds @ c # post \<and> ds \<noteq> [] \<and> list_all is_digit ds \<and> is_NS c)"

text \<open>The same pattern with the letter as it is written, a capital N or a capital S.\<close>

definition contains_upper_case_zone_pattern :: "string \<Rightarrow> bool" where
  "contains_upper_case_zone_pattern z =
     (\<exists>pre ds c post. z = pre @ ds @ c # post \<and> ds \<noteq> [] \<and> list_all is_digit ds \<and>
        (c = CHR ''N'' \<or> c = CHR ''S''))"

text \<open>
  The signed-area centroid of the specification, for the ring \<open>ps\<close> whose last
  vertex connects back to the first: the cross term
  \<open>a\<^sub>i = x\<^sub>i * y\<^sub>j - x\<^sub>j * y\<^sub>i\<close> with \<open>x\<close> the longitude, \<open>y\<close> the latitude and \<open>j\<close> the
  vertex after \<open>i\<close>; the signed area, half the sum of the cross terms; and the
  centroid, the sums of \<open>(x\<^sub>i + x\<^sub>j) * a\<^sub>i\<close> and of \<open>(y\<^sub>i + y\<^sub>j) * a\<^sub>i\<close> over six times
  the signed area.
\<close>

definition cross_term :: "PolygonPoint list \<Rightarrow> nat \<Rightarrow> real" where
  "cross_term ps i =
     lng (ps ! i) * lat (ps ! ((i + 1) mod length ps)) -
     lng (ps ! ((i + 1) mod length ps)) * lat (ps ! i)"

definition signed_area :: "PolygonPoint list \<Rightarrow> real" where
  "signed_area ps = 1 / 2 * (\<Sum>i<length ps. cross_term ps i)"

definition signed_area_centroid :: "PolygonPoint list \<Rightarrow> number GeographicCoordinates" where
  "signed_area_centroid ps =
     \<lparr> lat = js_div (\<Sum>i<length ps. (lat (ps ! i) + lat (ps ! ((i + 1) mod length ps))) * cross_term ps i)
                   (6 * signed_area ps),
       lng = js_div (\<Sum>i<length ps. (lng (ps ! i) + lng (ps ! ((i + 1) mod length ps))) * cross_term ps i)
                   (6 * signed_area ps) \<rparr>"

text \<open>A sum over the edges of the ring, each edge from a vertex to the next one.\<close>

definition ring_sum :: "(PolygonPoint \<Rightarrow> PolygonPoint \<Rightarrow> real) \<Rightarrow> PolygonPoint list \<Rightarrow> real" where
  "ring_sum f ps = (\<Sum>i<length ps. f (ps ! i) (ps ! ((i + 1) mod length ps)))"

text \<open>
  The Haversine formula on a sphere of radius \<open>R\<close>, the coordinates in degrees:
  twice the radius times the arc sine of the square root of the haversine of the
  central angle.
\<close>

definition haversine_formula ::
    "real \<Rightarrow> real GeographicCoordinates \<Rightarrow> real GeographicCoordinates \<Rightarrow> real" where
  "haversine_formula R p q =
     2 * R * arcsin (sqrt ((sin ((lat q * pi / 180 - lat p * pi / 180) / 2))\<^sup>2 +
                           cos (lat p * pi / 180) * cos (lat q * pi / 180) *
                           (sin ((lng q * pi / 180 - lng p * pi / 180) / 2))\<^sup>2))"

declare centroid_loop.simps [simp del]

section \<open>Zone strings: the matchers find what the patterns describe\<close>

lemma is_NS_not_digit: "is_NS c \<Longrightarrow> \<not> is_digit c"
  by (auto simp: is_NS_def is_digit_def)

lemma match_here_Some:
  assumes "match_here s = Some (ds, c)"
  shows "\<exists>post. s = ds @ c # post \<and> ds \<noteq> [] \<and> list_all is_digit ds \<and> is_NS c"
proof -
  obtain post where r: "dropWhile is_digit s = c # post"
    and d: "ds = takeWhile is_digit s" and ne: "ds \<noteq> []" and ns: "is_NS c"
    using assms by (auto simp: match_here_def Let_def split: list.splits if_splits)
  have "s = takeWhile is_digit s @ dropWhile is_digit s" by simp
  then have "s = ds @ c # post" using r d by simp
  moreover have "list_all is_digit ds"
    unfolding d list_all_iff using set_takeWhileD by fastforce
  ultimately show ?thesis using ne ns by blast
qed

lemma zone_match_sound:
  "zone_match z = Some (ds, c) \<Longrightarrow>
     \<exists>pre post. z = pre @ ds @ c # post \<and> ds \<noteq> [] \<and> list_all is_digit ds \<and> is_NS c"
proof (induction z)
  case Nil
  then show ?case by simp
next
  case (Cons a z)
  show ?case
  proof (cases "match_here (a # z)")
    case None
    with Cons.prems have "zone_match z = Some (ds, c)" by simp
    from Cons.IH [OF this] obtain pre post where
      "z = pre @ ds @ c # post" "ds \<noteq> []" "list_all is_digit ds" "is_NS c" by blast
    then have "a # z = (a # pre) @ ds @ c # post" by simp
    then show ?thesis using \<open>ds \<noteq> []\<close> \<open>list_all is_digit ds\<close> \<open>is_NS c\<close> by blast
  next
    case (Some m)
    with Cons.prems have "match_here (a # z) = Some (ds, c)" by simp
    from match_here_Some [OF this] obtain post where
      "a # z = [] @ ds @ c # post" "ds \<noteq> []" "list_all is_digit ds" "is_NS c" by auto
    then show ?thesis by blast
  qed
qed

lemma match_here_run:
  assumes "ds \<noteq> []" "list_all is_digit ds" "is_NS c"
  shows "match_here (ds @ c # post) = Some (ds, c)"
proof -
  have nd: "\<not> is_digit c" using assms(3) by (rule is_NS_not_digit)
  have all: "\<forall>d\<in>set ds. is_digit d" using assms(2) by (simp add: list_all_iff)
  have t: "takeWhile is_digit (ds @ c # post) = ds"
    using all nd by (simp add: takeWhile_append2)
  have d: "dropWhile is_digit (ds @ c # post) = c # post"
    using all nd by (simp add: dropWhile_append2)
  show ?thesis using assms(1,3) by (simp add: match_here_def t d)
qed

lemma zone_match_append:
  "zone_match s \<noteq> None \<Longrightarrow> zone_match (pre @ s) \<noteq> None"
  by (induction pre) (auto split: option.splits)

lemma zone_match_complete:
  assumes "contains_zone_pattern z"
  shows "zone_match z \<noteq> None"
proof -
  from assms obtain pre ds c post where
    z: "z = pre @ ds @ c # post" and ne: "ds \<noteq> []" and dg: "list_all is_digit ds" and ns: "is_NS c"
    unfolding contains_zone_pattern_def by blast
  obtain d ds' where ds: "ds = d # ds'" using ne by (cases ds) auto
  have "match_here (ds @ c # post) = Some (ds, c)" by (rule match_here_run [OF ne dg ns])
  then have "zone_match (ds @ c # post) \<noteq> None" by (simp add: ds)
  then show ?thesis unfolding z by (rule zone_match_append)
qed

lemma zone_match_None_iff: "zone_match z = None \<longleftrightarrow> \<not> contains_zone_pattern z"
proof
  assume "zone_match z = None"
  show "\<not> contains_zone_pattern z"
  proof
    assume "contains_zone_pattern z"
    then have "zone_match z \<noteq> None" by (rule zone_match_complete)
    with \<open>zone_match z = None\<close> show False by simp
  qed
next
  assume n: "\<not> contains_zone_pattern z"
  show "zone_match z = None"
  proof (cases "zone_match z")
    case None
    then show ?thesis .
  next
    case (Some m)
    obtain ds c where "m = (ds, c)" by (cases m)
    with Some zone_match_sound [of z ds c] have "contains_zone_pattern z"
      unfolding contains_zone_pattern_def by blast
    with n show ?thesis by simp
  qed
qed

lemma resolve_zone_19N: "resolve_zone ''19N'' = (19, True)"
  by (simp add: resolve_zone_def)

lemma zone_match_20N: "zone_match ''20N'' \<noteq> None"
  by code_simp

lemma resolve_zone_unparseable:
  assumes "\<not> contains_zone_pattern z"
  shows "resolve_zone z = (19, True)"
proof -
  have n: "zone_match z = None" using assms zone_match_None_iff by blast
  then have "z \<noteq> ''20N''" using zone_match_20N by blast
  then show ?thesis using n by (simp add: resolve_zone_def)
qed

lemma validate_zone_match_Some:
  "validate_zone_match z = Some ds \<longleftrightarrow>
     ((length z = 2 \<or> length z = 3) \<and> list_all is_digit (butlast z) \<and> is_NS (last z) \<and> ds = butlast z)"
  by (induction z rule: validate_zone_match.induct) auto

lemma validate_zone_match_None:
  "validate_zone_match z = None \<longleftrightarrow>
     \<not> ((length z = 2 \<or> length z = 3) \<and> list_all is_digit (butlast z) \<and> is_NS (last z))"
  by (induction z rule: validate_zone_match.induct) auto


section \<open>Zone fallback of utmToGeographic\<close>

lemma upper_case_pattern_letter:
  "contains_upper_case_zone_pattern z \<Longrightarrow> CHR ''N'' \<in> set z \<or> CHR ''S'' \<in> set z"
  unfolding contains_upper_case_zone_pattern_def by auto

lemma upper_case_pattern_either_case:
  "contains_upper_case_zone_pattern z \<Longrightarrow> contains_zone_pattern z"
  unfolding contains_upper_case_zone_pattern_def contains_zone_pattern_def is_NS_def by auto

lemma resolve_zone_20n: "resolve_zone ''20n'' = (20, True)"
  by code_simp

lemma resolve_zone_19s: "resolve_zone ''19s'' = (19, False)"
  by code_simp

text \<open>With the easting on the central meridian, \<^verbatim>\<open>D\<close> is zero and the longitude is
  the central meridian of the zone.\<close>

lemma lng_on_central_meridian:
  "lng (utm_inverse zoneNumber isNorthern 500000 uy) = (real zoneNumber - 1) * 6 - 180 + 3"
  by (simp add: utm_inverse_def Let_def)

text \<open>
  Claim C2 as it is written, the letter of the pattern a capital N or S, fails: the
  zone \<^verbatim>\<open>20n\<close> is none of \<^verbatim>\<open>19Q\<close>, \<^verbatim>\<open>19N\<close>, \<^verbatim>\<open>20N\<close> and holds no digit
  followed by a capital N or S, but the regular expression has the flag \<^verbatim>\<open>i\<close> and
  matches it, so the zone number is 20: at x = 500000 the longitude is -63, where zone
  19 gives -69.
\<close>

theorem lower_case_zone_counterexample:
  "''20n'' \<noteq> ''19Q'' \<and> ''20n'' \<noteq> ''19N'' \<and> ''20n'' \<noteq> ''20N'' \<and>
   \<not> contains_upper_case_zone_pattern ''20n'' \<and>
   lng (utmToGeographic \<lparr>utm_x = 500000, utm_y = 2042873, zone = ''20n''\<rparr>) = - 63 \<and>
   lng (utmToGeographic \<lparr>utm_x = 500000, utm_y = 2042873, zone = ''19N''\<rparr>) = - 69 \<and>
   utmToGeographic \<lparr>utm_x = 500000, utm_y = 2042873, zone = ''20n''\<rparr> \<noteq>
   utmToGeographic \<lparr>utm_x = 500000, utm_y = 2042873, zone = ''19N''\<rparr>"
proof -
  have p: "\<not> contains_upper_case_zone_pattern ''20n''"
    using upper_case_pattern_letter [of "''20n''"] by auto
  have a: "lng (utmToGeographic \<lparr>utm_x = 500000, utm_y = 2042873, zone = ''20n''\<rparr>) = - 63"
    by (simp add: utmToGeographic_def resolve_zone_20n lng_on_central_meridian)
  have b: "lng (utmToGeographic \<lparr>utm_x = 500000, utm_y = 2042873, zone = ''19N''\<rparr>) = - 69"
    by (simp add: utmToGeographic_def resolve_zone_def lng_on_central_meridian)
  have "utmToGeographic \<lparr>utm_x = 500000, utm_y = 2042873, zone = ''20n''\<rparr> \<noteq>
        utmToGeographic \<lparr>utm_x = 500000, utm_y = 2042873, zone = ''19N''\<rparr>"
  proof
    assume "utmToGeographic \<lparr>utm_x = 500000, utm_y = 2042873, zone = ''20n''\<rparr> =
        utmToGeographic \<lparr>utm_x = 500000, utm_y = 2042873, zone = ''19N''\<rparr>"
    then have "lng (utmToGeographic \<lparr>utm_x = 500000, utm_y = 2042873, zone = ''20n''\<rparr>) =
        lng (utmToGeographic \<lparr>utm_x = 500000, utm_y = 2042873, zone = ''19N''\<rparr>)"
      by (rule arg_cong)
    with a b show False by simp
  qed
  with p a b show ?thesis by simp
qed

text \<open>
  Claim C2, amended: the letter of the pattern is read in either case. For every UTM
  coordinate whose zone string is none of \<^verbatim>\<open>19Q\<close>, \<^verbatim>\<open>19N\<close>, \<^verbatim>\<open>20N\<close> and
  contains no run of digits followed by one of N, S, n, s, \<^verbatim>\<open>utmToGeographic\<close>
  returns a value (it has no path that throws), and that value is the one computed
  for zone 19 in the northern hemisphere: the one the same easting and northing give
  with the zone \<^verbatim>\<open>19N\<close>. For every easting and northing the zones \<^verbatim>\<open>19Q\<close> and
  \<^verbatim>\<open>19N\<close> give the same result, so latitudes, and longitudes, within 0.0001 degrees
  of each other; x = 530478, y = 2042873 is one such pair.
\<close>

theorem unparseable_zone_falls_back:
  "(\<forall>utm. zone utm \<noteq> ''19Q'' \<and> zone utm \<noteq> ''19N'' \<and> zone utm \<noteq> ''20N'' \<and>
          \<not> contains_zone_pattern (zone utm) \<longrightarrow>
          utmToGeographic utm = utm_inverse 19 True (utm_x utm) (utm_y utm) \<and>
          utmToGeographic utm = utmToGeographic (utm\<lparr>zone := ''19N''\<rparr>)) \<and>
   (\<forall>x y. utmToGeographic \<lparr>utm_x = x, utm_y = y, zone = ''19Q''\<rparr> =
          utmToGeographic \<lparr>utm_x = x, utm_y = y, zone = ''19N''\<rparr> \<and>
     \<bar>lat (utmToGeographic \<lparr>utm_x = x, utm_y = y, zone = ''19Q''\<rparr>) -
      lat (utmToGeographic \<lparr>utm_x = x, utm_y = y, zone = ''19N''\<rparr>)\<bar> \<le> 0.0001 \<and>
     \<bar>lng (utmToGeographic \<lparr>utm_x = x, utm_y = y, zone = ''19Q''\<rparr>) -
      lng (utmToGeographic \<lparr>utm_x = x, utm_y = y, zone = ''19N''\<rparr>)\<bar> \<le> 0.0001) \<and>
   \<bar>lat (utmToGeographic \<lparr>utm_x = 530478, utm_y = 2042873, zone = ''19Q''\<rparr>) -
    lat (utmToGeographic \<lparr>utm_x = 530478, utm_y = 2042873, zone = ''19N''\<rparr>)\<bar> \<le> 0.0001 \<and>
   \<bar>lng (utmToGeographic \<lparr>utm_x = 530478, utm_y = 2042873, zone = ''19Q''\<rparr>) -
    lng (utmToGeographic \<lparr>utm_x = 530478, utm_y = 2042873, zone = ''19N''\<rparr>)\<bar> \<le> 0.0001"
proof -
  have fb: "utmToGeographic utm = utm_inverse 19 True (utm_x utm) (utm_y utm) \<and>
            utmToGeographic utm = utmToGeographic (utm\<lparr>zone := ''19N''\<rparr>)"
    if "\<not> contains_zone_pattern (zone utm)" for utm
    using that by (simp add: utmToGeographic_def resolve_zone_unparseable resolve_zone_19N)
  have q: "utmToGeographic \<lparr>utm_x = x, utm_y = y, zone = ''19Q''\<rparr> =
           utmToGeographic \<lparr>utm_x = x, utm_y = y, zone = ''19N''\<rparr>" for x y
    by (simp add: utmToGeographic_def resolve_zone_def)
  have g: "utmToGeographic \<lparr>utm_x = x, utm_y = y, zone = ''19Q''\<rparr> =
          utmToGeographic \<lparr>utm_x = x, utm_y = y, zone = ''19N''\<rparr> \<and>
     \<bar>lat (utmToGeographic \<lparr>utm_x = x, utm_y = y, zone = ''19Q''\<rparr>) -
      lat (utmToGeographic \<lparr>utm_x = x, utm_y = y, zone = ''19N''\<rparr>)\<bar> \<le> 0.0001 \<and>
     \<bar>lng (utmToGeographic \<lparr>utm_x = x, utm_y = y, zone = ''19Q''\<rparr>) -
      lng (utmToGeographic \<lparr>utm_x = x, utm_y = y, zone = ''19N''\<rparr>)\<bar> \<le> 0.0001" for x y
    by (simp only: q) simp
  have p: "\<bar>lat (utmToGeographic \<lparr>utm_x = 530478, utm_y = 2042873, zone = ''19Q''\<rparr>) -
    lat (utmToGeographic \<lparr>utm_x = 530478, utm_y = 2042873, zone = ''19N''\<rparr>)\<bar> \<le> 0.0001 \<and>
   \<bar>lng (utmToGeographic \<lparr>utm_x = 530478, utm_y = 2042873, zone = ''19Q''\<rparr>) -
    lng (utmToGeographic \<lparr>utm_x = 530478, utm_y = 2042873, zone = ''19N''\<rparr>)\<bar> \<le> 0.0001"
    by (simp only: q) simp
  show ?thesis using fb g p by blast
qed

theorem unparseable_zone_falls_back_witness:
  "zone \<lparr>utm_x = 530478 :: real, utm_y = 2042873 :: real, zone = ''Zona 19''\<rparr> \<noteq> ''19Q'' \<and>
   \<not> contains_zone_pattern ''Zona 19'' \<and>
   utmToGeographic \<lparr>utm_x = 530478, utm_y = 2042873, zone = ''Zona 19''\<rparr> =
   utmToGeographic \<lparr>utm_x = 530478, utm_y = 2042873, zone = ''19N''\<rparr>"
proof -
  let ?u = "\<lparr>utm_x = 530478 :: real, utm_y = 2042873 :: real, zone = ''Zona 19''\<rparr>"
  have n: "zone_match ''Zona 19'' = None" by code_simp
  then have c: "\<not> contains_zone_pattern ''Zona 19''" using zone_match_None_iff by blast
  then have h: "zone ?u \<noteq> ''19Q'' \<and> zone ?u \<noteq> ''19N'' \<and> zone ?u \<noteq> ''20N'' \<and>
      \<not> contains_zone_pattern (zone ?u)" by simp
  have "utmToGeographic ?u = utmToGeographic (?u\<lparr>zone := ''19N''\<rparr>)"
    using unparseable_zone_falls_back h by blast
  moreover have "?u\<lparr>zone := ''19N''\<rparr> = \<lparr>utm_x = 530478, utm_y = 2042873, zone = ''19N''\<rparr>"
    by simp
  ultimately have "utmToGeographic ?u =
      utmToGeographic \<lparr>utm_x = 530478, utm_y = 2042873, zone = ''19N''\<rparr>"
    by (rule trans [OF _ arg_cong])
  with h c show ?thesis by blast
qed


section \<open>validateUtmCoordinates\<close>

lemma js_less_Finite: "js_less d (Finite b) \<longleftrightarrow> d = NegInfinity \<or> (\<exists>r. d = Finite r \<and> r < b)"
  by (cases d) auto

lemma js_greater_Finite:
  "js_greater d (Finite b) \<longleftrightarrow> d = PosInfinity \<or> (\<exists>r. d = Finite r \<and> b < r)"
  by (cases d) (auto simp: js_greater_def)

lemma in_range_or_NaN:
  "\<not> (js_less d (Finite lo) \<or> js_greater d (Finite hi)) \<longleftrightarrow>
     d = NotANumber \<or> (\<exists>r. d = Finite r \<and> lo \<le> r \<and> r \<le> hi)"
  by (cases d) (auto simp: js_greater_def)

lemma validateUtmCoordinates_char:
  "validateUtmCoordinates utm \<longleftrightarrow>
     ((length (zone utm) = 2 \<or> length (zone utm) = 3) \<and>
      list_all is_digit (butlast (zone utm)) \<and> is_NS (last (zone utm)) \<and>
      1 \<le> parseInt (butlast (zone utm)) \<and> parseInt (butlast (zone utm)) \<le> 60 \<and>
      \<not> (js_less (utm_x utm) (Finite 160000) \<or> js_greater (utm_x utm) (Finite 840000)) \<and>
      \<not> (js_less (utm_y utm) (Finite 0) \<or> js_greater (utm_y utm) (Finite 10000000)))"
proof (cases "validate_zone_match (zone utm)")
  case None
  then show ?thesis
    using validate_zone_match_None [of "zone utm"]
    by (auto simp: validateUtmCoordinates_def)
next
  case (Some ds)
  then show ?thesis
    using validate_zone_match_Some [of "zone utm" ds]
    by (auto simp: validateUtmCoordinates_def Let_def)
qed

text \<open>
  Claim C5. \<^verbatim>\<open>validateUtmCoordinates\<close> is to return true exactly when the zone is
  one or two digits followed by one of N, S, n, s and nothing else, the number the
  digits spell is between 1 and 60, the easting is between 160000 and 840000 and the
  northing between 0 and 10000000, all bounds included. On every easting and northing
  that is a real number the function does so; x = 160000, y = 0, zone \<^verbatim>\<open>19N\<close> is valid
  and with x = 159999 it is not. But the range tests are written as rejections,
  \<^verbatim>\<open>x < 160000 || x > 840000\<close>, and none of them rejects \<^verbatim>\<open>NaN\<close>: with a well-formed
  zone the function returns true for an easting or a northing that is \<^verbatim>\<open>NaN\<close>, which
  is in no range. \<^verbatim>\<open>validateGeographicCoordinates\<close>, written with \<^verbatim>\<open>>=\<close> and
  \<^verbatim>\<open><=\<close>, returns false there.
\<close>

theorem validateUtmCoordinates_accepts_NaN:
  "validateUtmCoordinates \<lparr> utm_x = NotANumber, utm_y = Finite 0, zone = ''19N'' \<rparr> \<and>
   validateUtmCoordinates \<lparr> utm_x = Finite 160000, utm_y = NotANumber, zone = ''19N'' \<rparr> \<and>
   \<not> validateGeographicCoordinates \<lparr> lat = NotANumber, lng = Finite 0 \<rparr> \<and>
   \<not> validateGeographicCoordinates \<lparr> lat = Finite 0, lng = NotANumber \<rparr> \<and>
   (\<forall>utm. validateUtmCoordinates utm \<longleftrightarrow>
     ((length (zone utm) = 2 \<or> length (zone utm) = 3) \<and>
      list_all is_digit (butlast (zone utm)) \<and> is_NS (last (zone utm)) \<and>
      1 \<le> parseInt (butlast (zone utm)) \<and> parseInt (butlast (zone utm)) \<le> 60 \<and>
      (utm_x utm = NotANumber \<or> (\<exists>r. utm_x utm = Finite r \<and> 160000 \<le> r \<and> r \<le> 840000)) \<and>
      (utm_y utm = NotANumber \<or> (\<exists>r. utm_y utm = Finite r \<and> 0 \<le> r \<and> r \<le> 10000000)))) \<and>
   (\<forall>x y z. validateUtmCoordinates \<lparr> utm_x = Finite x, utm_y = Finite y, zone = z \<rparr> \<longleftrightarrow>
     ((length z = 2 \<or> length z = 3) \<and>
      list_all is_digit (butlast z) \<and> is_NS (last z) \<and>
      1 \<le> parseInt (butlast z) \<and> parseInt (butlast z) \<le> 60 \<and>
      160000 \<le> x \<and> x \<le> 840000 \<and> 0 \<le> y \<and> y \<le> 10000000)) \<and>
   validateUtmCoordinates \<lparr> utm_x = Finite 160000, utm_y = Finite 0, zone = ''19N'' \<rparr> \<and>
   \<not> validateUtmCoordinates \<lparr> utm_x = Finite 159999, utm_y = Finite 0, zone = ''19N'' \<rparr>"
proof -
  have z: "length ''19N'' = 3 \<and> list_all is_digit (butlast ''19N'') \<and> is_NS (last ''19N'') \<and>
      1 \<le> parseInt (butlast ''19N'') \<and> parseInt (butlast ''19N'') \<le> 60"
    by (simp add: is_digit_def is_NS_def parseInt_def digit_value_def)
  have n1: "validateUtmCoordinates \<lparr> utm_x = NotANumber, utm_y = Finite 0, zone = ''19N'' \<rparr>"
    using z by (simp add: validateUtmCoordinates_char js_greater_def)
  have n2: "validateUtmCoordinates \<lparr> utm_x = Finite 160000, utm_y = NotANumber, zone = ''19N'' \<rparr>"
    using z by (simp add: validateUtmCoordinates_char js_greater_def)
  have g1: "\<not> validateGeographicCoordinates \<lparr> lat = NotANumber, lng = Finite 0 \<rparr>"
    by (simp add: validateGeographicCoordinates_def js_greater_eq_def js_less_eq_def)
  have g2: "\<not> validateGeographicCoordinates \<lparr> lat = Finite 0, lng = NotANumber \<rparr>"
    by (simp add: validateGeographicCoordinates_def js_greater_eq_def js_less_eq_def)
  have all: "validateUtmCoordinates utm \<longleftrightarrow>
     ((length (zone utm) = 2 \<or> length (zone utm) = 3) \<and>
      list_all is_digit (butlast (zone utm)) \<and> is_NS (last (zone utm)) \<and>
      1 \<le> parseInt (butlast (zone utm)) \<and> parseInt (butlast (zone utm)) \<le> 60 \<and>
      (utm_x utm = NotANumber \<or> (\<exists>r. utm_x utm = Finite r \<and> 160000 \<le> r \<and> r \<le> 840000)) \<and>
      (utm_y utm = NotANumber \<or> (\<exists>r. utm_y utm = Finite r \<and> 0 \<le> r \<and> r \<le> 10000000)))" for utm
    by (simp only: validateUtmCoordinates_char in_range_or_NaN)
  have fin: "validateUtmCoordinates \<lparr> utm_x = Finite x, utm_y = Finite y, zone = z \<rparr> \<longleftrightarrow>
     ((length z = 2 \<or> length z = 3) \<and>
      list_all is_digit (butlast z) \<and> is_NS (last z) \<and>
      1 \<le> parseInt (butlast z) \<and> parseInt (butlast z) \<le> 60 \<and>
      160000 \<le> x \<and> x \<le> 840000 \<and> 0 \<le> y \<and> y \<le> 10000000)" for x y z
    by (simp add: all)
  have a: "validateUtmCoordinates \<lparr> utm_x = Finite 160000, utm_y = Finite 0, zone = ''19N'' \<rparr>"
    using z by (simp add: fin)
  have b: "\<not> validateUtmCoordinates \<lparr> utm_x = Finite 159999, utm_y = Finite 0, zone = ''19N'' \<rparr>"
    by (simp add: fin)
  from n1 n2 g1 g2 all fin a b show ?thesis by blast
qed


text \<open>
  Claim C6. Whatever the easting and the northing, \<^verbatim>\<open>validateUtmCoordinates\<close>
  returns false for the zone \<^verbatim>\<open>19Q\<close>, which \<^verbatim>\<open>utmToGeographic\<close> reads as zone 19
  in the northern hemisphere.
\<close>

theorem zone_19Q_never_valid:
  "(\<forall>x y. \<not> validateUtmCoordinates \<lparr> utm_x = x, utm_y = y, zone = ''19Q'' \<rparr>) \<and>
   resolve_zone ''19Q'' = (19, True)"
  by (simp add: validateUtmCoordinates_def is_NS_def resolve_zone_def)


section \<open>geographicToUtm\<close>

lemma js_round_int: "js_round r \<in> \<int>"
  by (simp add: js_round_def)

lemma js_round_near: "\<bar>js_round r - r\<bar> \<le> 1 / 2"
  unfolding js_round_def by linarith

lemma string_of_int_19: "string_of_int 19 = ''19''"
  by code_simp

text \<open>
  Claim C7. For every geographic coordinate the easting that \<^verbatim>\<open>geographicToUtm\<close>
  returns is an integer at most half a meter from the projected easting; the northing
  is an integer at most half a meter from the projected northing, to which 10000000
  has been added first when the latitude is negative; and the zone is the decimal
  numeral of \<open>floor ((lng + 180) / 6) + 1\<close> followed by N when the latitude is at
  least 0 and by S otherwise.
\<close>

theorem geographicToUtm_output:
  "utm_x (geographicToUtm coords) \<in> \<int> \<and>
   \<bar>utm_x (geographicToUtm coords) - fst (utm_forward coords)\<bar> \<le> 1 / 2 \<and>
   utm_y (geographicToUtm coords) \<in> \<int> \<and>
   \<bar>utm_y (geographicToUtm coords) -
      (if lat coords \<ge> 0 then snd (utm_forward coords) else snd (utm_forward coords) + 10000000)\<bar> \<le> 1 / 2 \<and>
   zone (geographicToUtm coords) =
      string_of_int (\<lfloor>(lng coords + 180) / 6\<rfloor> + 1) @ (if lat coords \<ge> 0 then ''N'' else ''S'')"
proof -
  obtain E N0 where f: "utm_forward coords = (E, N0)" by (cases "utm_forward coords")
  show ?thesis
    using js_round_near [of E] js_round_near [of N0] js_round_near [of "N0 + 10000000"]
    by (simp add: geographicToUtm_def f Let_def js_round_int zoneNumber_of_def)
qed

theorem geographicToUtm_output_witness:
  "zone (geographicToUtm \<lparr>lat = 18.5, lng = -69.9\<rparr>) = ''19N'' \<and>
   utm_x (geographicToUtm \<lparr>lat = 18.5, lng = -69.9\<rparr>) \<in> \<int>"
proof -
  have "\<lfloor>(- 69.9 + 180) / 6 :: real\<rfloor> = 18" by (simp add: floor_eq_iff)
  then show ?thesis
    using geographicToUtm_output [of "\<lparr>lat = 18.5, lng = -69.9\<rparr>"]
    by (simp add: string_of_int_19)
qed

section \<open>calculatePolygonCentroid\<close>

lemma centroid_loop_sums:
  "i \<le> length ps \<Longrightarrow>
   centroid_loop ps i (A, B, C) =
     (A + (\<Sum>k = i..<length ps. cross_term ps k),
      B + (\<Sum>k = i..<length ps. (lat (ps ! k) + lat (ps ! ((k + 1) mod length ps))) * cross_term ps k),
      C + (\<Sum>k = i..<length ps. (lng (ps ! k) + lng (ps ! ((k + 1) mod length ps))) * cross_term ps k))"
proof (induction ps i "(A, B, C)" arbitrary: A B C rule: centroid_loop.induct)
  case (1 polygon i area centroidLat centroidLng)
  show ?case
  proof (cases "i < length polygon")
    case True
    then have le: "i + 1 \<le> length polygon" by simp
    have step: "centroid_loop polygon i (area, centroidLat, centroidLng) =
      centroid_loop polygon (i + 1)
        (area + cross_term polygon i,
         centroidLat + (lat (polygon ! i) + lat (polygon ! ((i + 1) mod length polygon))) * cross_term polygon i,
         centroidLng + (lng (polygon ! i) + lng (polygon ! ((i + 1) mod length polygon))) * cross_term polygon i)"
      using True by (subst centroid_loop.simps) (simp add: Let_def cross_term_def)
    show ?thesis
      unfolding step
      using "1.hyps" [OF True refl refl refl refl refl refl le] True
      by (simp add: sum.atLeast_Suc_lessThan add.assoc cross_term_def)
  next
    case False
    with "1.prems" have "i = length polygon" by simp
    then show ?thesis by (subst centroid_loop.simps) simp
  qed
qed

lemma centroid_loop_0:
  "centroid_loop ps 0 (0, 0, 0) =
     ((\<Sum>k<length ps. cross_term ps k),
      (\<Sum>k<length ps. (lat (ps ! k) + lat (ps ! ((k + 1) mod length ps))) * cross_term ps k),
      (\<Sum>k<length ps. (lng (ps ! k) + lng (ps ! ((k + 1) mod length ps))) * cross_term ps k))"
  using centroid_loop_sums [of 0 ps 0 0 0] by (simp add: lessThan_atLeast0)

lemma calculatePolygonCentroid_formula:
  "2 \<le> length ps \<Longrightarrow> calculatePolygonCentroid ps = Inr (signed_area_centroid ps)"
  by (auto simp: calculatePolygonCentroid_def centroid_loop_0 signed_area_centroid_def signed_area_def)


lemma signed_area_centroid_single:
  "signed_area_centroid [p] = \<lparr>lat = NaN, lng = NaN\<rparr>"
  by (simp add: signed_area_centroid_def signed_area_def cross_term_def js_div_def)


text \<open>
  Claim C3. On the empty polygon \<^verbatim>\<open>calculatePolygonCentroid\<close> throws; on a
  polygon of one point it returns that point, latitude and longitude unchanged, which
  is not what the signed-area formula gives there; on every polygon of two or more
  points it returns what the signed-area centroid formula gives.
\<close>

theorem centroid_edge_cases:
  "calculatePolygonCentroid [] = Inl (Error ''Polygon must have at least one point'') \<and>
   (\<forall>p. calculatePolygonCentroid [p] = Inr \<lparr>lat = Num (lat p), lng = Num (lng p)\<rparr> \<and>
        calculatePolygonCentroid [p] \<noteq> Inr (signed_area_centroid [p])) \<and>
   (\<forall>ps. 2 \<le> length ps \<longrightarrow> calculatePolygonCentroid ps = Inr (signed_area_centroid ps))"
proof -
  have a: "calculatePolygonCentroid [] = Inl (Error ''Polygon must have at least one point'')"
    by (simp add: calculatePolygonCentroid_def)
  have b: "calculatePolygonCentroid [p] = Inr \<lparr>lat = Num (lat p), lng = Num (lng p)\<rparr>" for p
    by (simp add: calculatePolygonCentroid_def as_result_def)
  have c: "calculatePolygonCentroid [p] \<noteq> Inr (signed_area_centroid [p])" for p
    by (simp add: b signed_area_centroid_single)
  show ?thesis using a b c calculatePolygonCentroid_formula by blast
qed

theorem centroid_edge_cases_witness:
  "2 \<le> length [\<lparr>lat = 0, lng = 0\<rparr>, \<lparr>lat = 0, lng = 4\<rparr>, \<lparr>lat = 2, lng = 4\<rparr>, \<lparr>lat = 2, lng = (0::real)\<rparr>] \<and>
   Inr (signed_area_centroid [\<lparr>lat = 0, lng = 0\<rparr>, \<lparr>lat = 0, lng = 4\<rparr>, \<lparr>lat = 2, lng = 4\<rparr>, \<lparr>lat = 2, lng = 0\<rparr>]) =
   calculatePolygonCentroid [\<lparr>lat = 0, lng = 0\<rparr>, \<lparr>lat = 0, lng = 4\<rparr>, \<lparr>lat = 2, lng = 4\<rparr>, \<lparr>lat = 2, lng = 0\<rparr>] \<and>
   calculatePolygonCentroid [\<lparr>lat = 0, lng = 0\<rparr>, \<lparr>lat = 0, lng = 4\<rparr>, \<lparr>lat = 2, lng = 4\<rparr>, \<lparr>lat = 2, lng = 0\<rparr>] =
   Inr \<lparr>lat = Num 1, lng = Num 2\<rparr>"
proof -
  let ?sq = "[\<lparr>lat = 0, lng = 0\<rparr>, \<lparr>lat = 0, lng = 4\<rparr>, \<lparr>lat = 2, lng = 4\<rparr>, \<lparr>lat = 2, lng = (0::real)\<rparr>]"
  have l: "2 \<le> length ?sq" by simp
  have v: "calculatePolygonCentroid ?sq = Inr \<lparr>lat = Num 1, lng = Num 2\<rparr>"
    by (simp add: calculatePolygonCentroid_def centroid_loop.simps js_div_def)
  have "calculatePolygonCentroid ?sq = Inr (signed_area_centroid ?sq)"
    using centroid_edge_cases l by blast
  with l v show ?thesis by simp
qed

lemma js_div_zero_not_finite: "\<not> is_finite (js_div a 0)"
  by (simp add: js_div_def)

lemma cross_term_replicate: "i < n \<Longrightarrow> cross_term (replicate n p) i = 0"
  by (simp add: cross_term_def)


text \<open>
  Claim C4. On every polygon of two points \<^verbatim>\<open>calculatePolygonCentroid\<close> does not
  throw and returns \<^verbatim>\<open>NaN\<close> for both coordinates, zero divided by zero. On every
  polygon of two or more points whose accumulated area is zero it does not throw, and
  neither coordinate it returns is a finite number. A list of two or more copies of
  one point is such a polygon, and both its coordinates are \<^verbatim>\<open>NaN\<close>.
\<close>

theorem centroid_zero_area:
  "(\<forall>p q. calculatePolygonCentroid [p, q] = Inr \<lparr>lat = NaN, lng = NaN\<rparr>) \<and>
   (\<forall>ps. 2 \<le> length ps \<and> fst (centroid_loop ps 0 (0, 0, 0)) = 0 \<longrightarrow>
      (\<exists>r. calculatePolygonCentroid ps = Inr r \<and> \<not> is_finite (lat r) \<and> \<not> is_finite (lng r))) \<and>
   (\<forall>n p. 2 \<le> n \<longrightarrow> calculatePolygonCentroid (replicate n p) = Inr \<lparr>lat = NaN, lng = NaN\<rparr>)"
proof (intro conjI allI impI)
  fix p q :: PolygonPoint
  show "calculatePolygonCentroid [p, q] = Inr \<lparr>lat = NaN, lng = NaN\<rparr>"
    by (simp add: calculatePolygonCentroid_formula signed_area_centroid_def signed_area_def
        cross_term_def js_div_def lessThan_Suc algebra_simps)
next
  fix ps :: "PolygonPoint list"
  assume h: "2 \<le> length ps \<and> fst (centroid_loop ps 0 (0, 0, 0)) = 0"
  then obtain B C where l: "centroid_loop ps 0 (0, 0, 0) = (0, B, C)"
    by (cases "centroid_loop ps 0 (0, 0, 0)") auto
  have "calculatePolygonCentroid ps = Inr \<lparr>lat = js_div B 0, lng = js_div C 0\<rparr>"
    using h by (auto simp: calculatePolygonCentroid_def l)
  then show "\<exists>r. calculatePolygonCentroid ps = Inr r \<and> \<not> is_finite (lat r) \<and> \<not> is_finite (lng r)"
    by (simp add: js_div_zero_not_finite)
next
  fix n :: nat and p :: PolygonPoint
  assume n: "2 \<le> n"
  have "centroid_loop (replicate n p) 0 (0, 0, 0) = (0, 0, 0)"
    by (simp add: centroid_loop_0 cross_term_replicate)
  then show "calculatePolygonCentroid (replicate n p) = Inr \<lparr>lat = NaN, lng = NaN\<rparr>"
    using n by (auto simp: calculatePolygonCentroid_def js_div_def)
qed

theorem centroid_zero_area_witness:
  "2 \<le> length [\<lparr>lat = 0, lng = 0\<rparr>, \<lparr>lat = 2, lng = 2\<rparr>, \<lparr>lat = 0, lng = 2\<rparr>, \<lparr>lat = 2, lng = (0::real)\<rparr>] \<and>
   fst (centroid_loop [\<lparr>lat = 0, lng = 0\<rparr>, \<lparr>lat = 2, lng = 2\<rparr>, \<lparr>lat = 0, lng = 2\<rparr>, \<lparr>lat = 2, lng = 0\<rparr>] 0 (0, 0, 0)) = 0 \<and>
   calculatePolygonCentroid [\<lparr>lat = 0, lng = 0\<rparr>, \<lparr>lat = 2, lng = 2\<rparr>, \<lparr>lat = 0, lng = 2\<rparr>, \<lparr>lat = 2, lng = 0\<rparr>] =
     Inr \<lparr>lat = NaN, lng = Infinity\<rparr> \<and>
   (2::nat) \<le> 3 \<and>
   calculatePolygonCentroid (replicate 3 \<lparr>lat = 18, lng = -69\<rparr>) = Inr \<lparr>lat = NaN, lng = NaN\<rparr>"
proof -
  let ?bow = "[\<lparr>lat = 0, lng = 0\<rparr>, \<lparr>lat = 2, lng = 2\<rparr>, \<lparr>lat = 0, lng = 2\<rparr>, \<lparr>lat = 2, lng = (0::real)\<rparr>]"
  have l: "2 \<le> length ?bow" by simp
  have z: "fst (centroid_loop ?bow 0 (0, 0, 0)) = 0"
    by (simp add: centroid_loop.simps)
  have v: "calculatePolygonCentroid ?bow = Inr \<lparr>lat = NaN, lng = Infinity\<rparr>"
    by (simp add: calculatePolygonCentroid_def centroid_loop.simps js_div_def)
  have e: "\<exists>r. calculatePolygonCentroid ?bow = Inr r \<and> \<not> is_finite (lat r) \<and> \<not> is_finite (lng r)"
    using centroid_zero_area l z by blast
  have "(2::nat) \<le> 3" by simp
  then have r: "calculatePolygonCentroid (replicate 3 \<lparr>lat = 18, lng = -69\<rparr>) = Inr \<lparr>lat = NaN, lng = NaN\<rparr>"
    using centroid_zero_area by blast
  show ?thesis using l z v r by simp
qed

lemma sum_shift_mod:
  fixes g :: "nat \<Rightarrow> real"
  shows "(\<Sum>i<Suc m. g (Suc i mod Suc m)) = (\<Sum>i<Suc m. g i)"
proof -
  have "(\<Sum>i<Suc m. g (Suc i mod Suc m)) = (\<Sum>i<m. g (Suc i mod Suc m)) + g (Suc m mod Suc m)"
    by (rule sum.lessThan_Suc)
  also have "(\<Sum>i<m. g (Suc i mod Suc m)) = (\<Sum>i<m. g (Suc i))"
    by (rule sum.cong) auto
  also have "g (Suc m mod Suc m) = g 0" by simp
  also have "(\<Sum>i<m. g (Suc i)) + g 0 = (\<Sum>i<Suc m. g i)"
    by (simp only: sum.lessThan_Suc_shift [of g m] add.commute)
  finally show ?thesis .
qed

lemma ring_sum_rotate1: "ring_sum f (rotate1 ps) = ring_sum f ps"
proof (cases ps)
  case Nil
  then show ?thesis by simp
next
  case (Cons p qs)
  define m where "m = length qs"
  have n: "length ps = Suc m" using Cons m_def by simp
  define g where "g k = f (ps ! k) (ps ! (Suc k mod Suc m))" for k
  have "ring_sum f (rotate1 ps) = (\<Sum>i<Suc m. g (Suc i mod Suc m))"
    unfolding ring_sum_def
  proof (rule sum.cong)
    show "{..<length (rotate1 ps)} = {..<Suc m}" using n by simp
  next
    fix i assume "i \<in> {..<Suc m}"
    then have i: "i < length ps" using n by simp
    have j: "Suc i mod Suc m < length ps" using n by simp
    have "rotate1 ps ! i = ps ! (Suc i mod Suc m)"
      using nth_rotate1 [OF i] n by simp
    moreover have "rotate1 ps ! (Suc i mod Suc m) = ps ! (Suc (Suc i mod Suc m) mod Suc m)"
      using nth_rotate1 [OF j] n by simp
    ultimately show "f (rotate1 ps ! i) (rotate1 ps ! ((i + 1) mod length (rotate1 ps))) =
        g (Suc i mod Suc m)"
      using n by (simp add: g_def)
  qed
  also have "\<dots> = (\<Sum>i<Suc m. g i)" by (rule sum_shift_mod)
  also have "\<dots> = ring_sum f ps" by (simp add: ring_sum_def n g_def)
  finally show ?thesis .
qed

lemma ring_sum_rotate: "ring_sum f (rotate k ps) = ring_sum f ps"
  by (induction k) (simp_all add: ring_sum_rotate1)

lemma cross_sum_ring:
  "(\<Sum>i<length ps. cross_term ps i) = ring_sum (\<lambda>p q. lng p * lat q - lng q * lat p) ps"
  by (simp add: ring_sum_def cross_term_def)

lemma lat_sum_ring:
  "(\<Sum>i<length ps. (lat (ps ! i) + lat (ps ! ((i + 1) mod length ps))) * cross_term ps i) =
     ring_sum (\<lambda>p q. (lat p + lat q) * (lng p * lat q - lng q * lat p)) ps"
  by (simp add: ring_sum_def cross_term_def)

lemma lng_sum_ring:
  "(\<Sum>i<length ps. (lng (ps ! i) + lng (ps ! ((i + 1) mod length ps))) * cross_term ps i) =
     ring_sum (\<lambda>p q. (lng p + lng q) * (lng p * lat q - lng q * lat p)) ps"
  by (simp add: ring_sum_def cross_term_def)

lemma signed_area_centroid_rotate:
  "signed_area_centroid (rotate k ps) = signed_area_centroid ps"
  unfolding signed_area_centroid_def signed_area_def cross_sum_ring lat_sum_ring lng_sum_ring
  by (simp only: ring_sum_rotate)


text \<open>
  Claim C9. In exact real arithmetic, \<^verbatim>\<open>calculatePolygonCentroid\<close> returns the
  same result for a polygon of two or more points and for each cyclic rotation of its
  vertex list.
\<close>

theorem centroid_rotation_invariant:
  "2 \<le> length ps \<Longrightarrow> calculatePolygonCentroid (rotate k ps) = calculatePolygonCentroid ps"
  by (simp add: calculatePolygonCentroid_formula signed_area_centroid_rotate)

theorem centroid_rotation_invariant_witness:
  "2 \<le> length [\<lparr>lat = 0, lng = 0\<rparr>, \<lparr>lat = 0, lng = 3\<rparr>, \<lparr>lat = 3, lng = (0::real)\<rparr>] \<and>
   calculatePolygonCentroid [\<lparr>lat = 0, lng = 3\<rparr>, \<lparr>lat = 3, lng = 0\<rparr>, \<lparr>lat = 0, lng = 0\<rparr>] =
   calculatePolygonCentroid [\<lparr>lat = 0, lng = 0\<rparr>, \<lparr>lat = 0, lng = 3\<rparr>, \<lparr>lat = 3, lng = 0\<rparr>] \<and>
   calculatePolygonCentroid [\<lparr>lat = 0, lng = 0\<rparr>, \<lparr>lat = 0, lng = 3\<rparr>, \<lparr>lat = 3, lng = 0\<rparr>] =
   Inr \<lparr>lat = Num 1, lng = Num 1\<rparr>"
proof -
  have v: "calculatePolygonCentroid [\<lparr>lat = 0, lng = 0\<rparr>, \<lparr>lat = 0, lng = 3\<rparr>, \<lparr>lat = 3, lng = 0\<rparr>] =
      Inr \<lparr>lat = Num 1, lng = Num 1\<rparr>"
    by (simp add: calculatePolygonCentroid_def centroid_loop.simps js_div_def)
  show ?thesis
    using centroid_rotation_invariant
      [of "[\<lparr>lat = 0, lng = 0\<rparr>, \<lparr>lat = 0, lng = 3\<rparr>, \<lparr>lat = 3, lng = 0\<rparr>]" 1] v
    by simp
qed



section \<open>calculateDistance\<close>

lemma haversine_a_sym: "haversine_a p q = haversine_a q p"
proof -
  have s: "sin ((u - v) * pi / 180 / 2) * sin ((u - v) * pi / 180 / 2) =
           sin ((v - u) * pi / 180 / 2) * sin ((v - u) * pi / 180 / 2)" for u v :: real
  proof -
    have "(u - v) * pi / 180 / 2 = - ((v - u) * pi / 180 / 2)" by (simp add: field_simps)
    then show ?thesis by (simp only: sin_minus)
  qed
  show ?thesis
    unfolding haversine_a_def Let_def
    using s [of "lat q" "lat p"] s [of "lng q" "lng p"]
    by (simp add: mult.assoc mult.commute mult.left_commute)
qed

lemma haversine_a_same: "haversine_a p p = 0"
  by (simp add: haversine_a_def)

lemma convex_unit:
  fixes t u v :: real
  assumes "0 \<le> t" "t \<le> 1" "0 \<le> u" "u \<le> 1" "0 \<le> v" "v \<le> 1"
  shows "0 \<le> (1 - t) * u + t * v" and "(1 - t) * u + t * v \<le> 1"
proof -
  show "0 \<le> (1 - t) * u + t * v" using assms by simp
  have "(1 - t) * u \<le> (1 - t) * 1" using assms by (intro mult_left_mono) auto
  moreover have "t * v \<le> t * 1" using assms by (intro mult_left_mono) auto
  ultimately show "(1 - t) * u + t * v \<le> 1" by simp
qed

lemma sin_half_sq: "(sin (x / 2))\<^sup>2 = (1 - cos x) / 2" for x :: real
  using cos_double_sin [of "x / 2"] by simp

lemma haversine_a_range: "0 \<le> haversine_a p q \<and> haversine_a p q \<le> 1"
proof -
  define a where "a = lat p * pi / 180"
  define b where "b = lat q * pi / 180"
  define l where "l = (lng q - lng p) * pi / 180"
  define t where "t = (sin (l / 2))\<^sup>2"
  define u where "u = (sin ((b - a) / 2))\<^sup>2"
  define v where "v = (1 + cos (a + b)) / 2"
  have d: "(lat q - lat p) * pi / 180 = b - a" by (simp add: a_def b_def field_simps)
  have h: "haversine_a p q = u + cos a * cos b * t"
    by (simp add: haversine_a_def Let_def d power2_eq_square a_def [symmetric] b_def [symmetric]
        l_def [symmetric] t_def u_def)
  have t: "0 \<le> t" "t \<le> 1" by (simp_all add: t_def abs_square_le_1)
  have u: "0 \<le> u" "u \<le> 1" by (simp_all add: u_def abs_square_le_1)
  have half: "- 1 \<le> c \<Longrightarrow> c \<le> 1 \<Longrightarrow> 0 \<le> (1 + c) / 2 \<and> (1 + c) / 2 \<le> 1" for c :: real
    by simp
  have v: "0 \<le> v" "v \<le> 1"
    using half [OF cos_ge_minus_one cos_le_one, of "a + b"] by (simp_all only: v_def)
  have "u = (1 - cos (b - a)) / 2" by (simp add: u_def sin_half_sq)
  then have uv: "u + cos a * cos b = v"
    by (simp add: v_def cos_diff cos_add field_simps)
  have "u + cos a * cos b * t = (1 - t) * u + t * v"
    by (simp add: uv [symmetric] algebra_simps)
  with h convex_unit [OF t u v] show ?thesis by simp
qed

lemma js_atan2_arcsin:
  assumes "0 \<le> a" "a \<le> 1"
  shows "js_atan2 (sqrt a) (sqrt (1 - a)) = arcsin (sqrt a)"
proof (cases "a = 1")
  case True
  then show ?thesis by (simp add: js_atan2_def)
next
  case False
  with assms have lt: "a < 1" by simp
  then have pos: "0 < sqrt (1 - a)" by simp
  have s: "-1 < sqrt a" "sqrt a < 1"
    using assms lt by (simp_all add: less_le_trans [of "-1" 0])
  have "arcsin (sqrt a) = arctan (sqrt a / sqrt (1 - (sqrt a)\<^sup>2))"
    by (rule arcsin_arctan [OF s])
  also have "(sqrt a)\<^sup>2 = a" using assms by simp
  finally show ?thesis using pos by (simp add: js_atan2_def)
qed


text \<open>
  Claim C10. For all geographic coordinates \<open>p\<close> and \<open>q\<close>, in exact real arithmetic,
  \<^verbatim>\<open>calculateDistance\<close> gives the same distance from \<open>p\<close> to \<open>q\<close> as from \<open>q\<close> to
  \<open>p\<close>, gives 0 from \<open>p\<close> to \<open>p\<close>, and is the Haversine formula on a sphere of
  radius 6371000.
\<close>

theorem calculateDistance_haversine:
  "calculateDistance p q = calculateDistance q p \<and>
   calculateDistance p p = 0 \<and>
   calculateDistance p q = haversine_formula 6371000 p q"
proof -
  have sym: "calculateDistance p q = calculateDistance q p"
    by (simp add: calculateDistance_def haversine_a_sym [of p q])
  have same: "calculateDistance p p = 0"
    by (simp add: calculateDistance_def haversine_a_same js_atan2_def)
  have a: "haversine_a p q =
      (sin ((lat q * pi / 180 - lat p * pi / 180) / 2))\<^sup>2 +
      cos (lat p * pi / 180) * cos (lat q * pi / 180) *
      (sin ((lng q * pi / 180 - lng p * pi / 180) / 2))\<^sup>2"
    by (simp add: haversine_a_def Let_def power2_eq_square algebra_simps diff_divide_distrib)
  have "calculateDistance p q = 6371000 * (2 * arcsin (sqrt (haversine_a p q)))"
    using haversine_a_range [of p q] by (simp add: calculateDistance_def Let_def js_atan2_arcsin)
  then have hav: "calculateDistance p q = haversine_formula 6371000 p q"
    by (simp add: haversine_formula_def a)
  from sym same hav show ?thesis by simp
qed


end
